theory Spec2Isabelle
  imports Main
begin

section \<open>The authentication core of tools/auth.js\<close>

text \<open>
  A shallow embedding of \<^verbatim>\<open>src/tools/auth.js\<close>. Promises are modelled by their
  eventual result, a value of \<open>thrown + 'a\<close> (\<open>Inl\<close> the rejection); functions that write
  to the store return the new store beside the result. Logging is left out. The clock,
  the random bytes and the functions of the npm packages the file calls are explicit
  arguments.
\<close>

subsection \<open>Messages and thrown values\<close>

text \<open>
  The message constants that auth.js imports from \<^verbatim>\<open>../messages\<close>. That module
  is a table of pairwise different strings; the constants are kept symbolic.
\<close>

datatype message =
    NOT_AUTHORIZED
  | TOKEN_EXPIRED
  | INVALID_TOKEN
  | MISSING_HEADER
  | DEACTIVATED_USER
  | INVALID_CAPTCHA
  | INVALID_OTP_CODE
  | INVALID_PASSWORD
  | TOKEN_OTP_MUST_BE_ENABLED
  | TOKEN_NOT_FOUND
  | TOKEN_REVOKED
  | MULTIPLE_API_KEY
  | API_KEY_NULL
  | API_REQUEST_EXPIRED
  | API_SIGNATURE_NULL
  | API_KEY_INACTIVE
  | API_KEY_INVALID
  | API_KEY_EXPIRED
  | API_KEY_OUT_OF_SCOPE
  | API_SIGNATURE_INVALID
  | CODE_NOT_FOUND
  | CODE_USED
  | SAME_PASSWORD

text \<open>
  What a promise of auth.js is rejected with: \<open>new Error(msg)\<close>, the same with
  \<open>error.status\<close> set, the TypeError of a property read on \<open>null\<close> or of a call of
  \<open>undefined\<close>, and the error object that \<open>jwt.verify\<close> hands over.
\<close>

datatype thrown =
    Error message
  | Error_with_status message nat
  | TypeError
  | JwtError string

subsection \<open>JavaScript values\<close>

text \<open>
  A header value, an argument or a property that may be \<open>undefined\<close> is a
  \<open>string option\<close>. \<open>falsy\<close> is JavaScript's \<open>!x\<close> on such a value, \<open>String_of\<close>
  is what string concatenation makes of it.
\<close>

definition falsy :: "string option \<Rightarrow> bool" where
  "falsy x = (case x of None \<Rightarrow> True | Some s \<Rightarrow> s = [])"

definition String_of :: "string option \<Rightarrow> string" where
  "String_of x = (case x of None \<Rightarrow> ''undefined'' | Some s \<Rightarrow> s)"

text \<open>
  The number a string converts to when it is compared with a number. The clock is an
  integer, so a finite value stands for its floor.
\<close>

datatype jsnum = NaN | Num int | PosInfinity | NegInfinity

text \<open>\<open>n > x\<close> for a number \<open>n\<close> and a converted value \<open>x\<close>.\<close>

fun js_gt :: "int \<Rightarrow> jsnum \<Rightarrow> bool" where
  "js_gt n NaN = False"
| "js_gt n (Num m) = (m < n)"
| "js_gt n PosInfinity = False"
| "js_gt n NegInfinity = True"

text \<open>
  A request body, or the \<open>data\<close> argument of \<open>calculateSignature\<close>: absent, a string,
  or any other value, which \<open>JSON.stringify\<close> serialises.
\<close>

datatype 'j jsdata = Undefined | Str string | Json 'j

subsection \<open>Bearer tokens\<close>

record subject =
  sub_id :: nat
  sub_email :: string

record decodedToken =
  jwt_sub :: subject
  jwt_scopes :: "string list"
  jwt_ip :: string
  jwt_iss :: string

subsection \<open>Library functions and configuration\<close>

text \<open>
  The functions of Node's \<open>crypto\<close> and of the packages \<open>jsonwebtoken\<close> and \<open>otp\<close>
  that auth.js calls, and the conversions of the language itself:
  \<^item> \<open>createHmac_sha256_hex k m\<close> is
    \<^verbatim>\<open>crypto.createHmac('sha256', k).update(m).digest('hex')\<close>;
  \<^item> \<open>jwt_verify t s\<close> is the outcome of \<^verbatim>\<open>jwt.verify(t, s, callback)\<close> at the
    current time: the error, or the decoded payload;
  \<^item> \<open>ToNumber s\<close> is the number the string \<open>s\<close> converts to;
  \<^item> \<open>hotp s c\<close> is the one-time code of the secret \<open>s\<close> at the counter \<open>c\<close>.
\<close>

record 'j lib =
  createHmac_sha256_hex :: "string \<Rightarrow> string \<Rightarrow> string"
  JSON_stringify :: "'j \<Rightarrow> string"
  jwt_verify :: "string \<Rightarrow> string \<Rightarrow> string + decodedToken"
  ToNumber :: "string \<Rightarrow> jsnum"
  hotp :: "string \<Rightarrow> int \<Rightarrow> string"

text \<open>The constants auth.js imports from the server's \<^verbatim>\<open>constants\<close> module.\<close>

record constants =
  BASE_SCOPES :: "string list"
  ISSUER :: string
  SECRET :: string
  ROLES_USER :: string
  TOKEN_TYPES_HMAC :: string
  HMAC_TOKEN_EXPIRY :: int

subsection \<open>Requests\<close>

text \<open>
  \<open>headers\<close> maps a header name to its value; lodash's \<open>has(req.headers, k)\<close> is
  \<open>has\<close>. A request without a header bag behaves as one with the empty bag in every
  function below. \<open>swagger\<close> is \<open>req.swagger.operation['x-security-scopes']\<close> when
  \<open>req.swagger\<close> is set.
\<close>

record 'j request =
  headers :: "string \<rightharpoonup> string"
  req_method :: string
  originalUrl :: string
  body :: "'j jsdata"
  swagger :: "string list option"

definition has :: "(string \<rightharpoonup> string) \<Rightarrow> string \<Rightarrow> bool" where
  "has h k = (h k \<noteq> None)"

subsection \<open>Signature engine\<close>

text \<open>
  \<^verbatim>\<open>calculateSignature = (secret = '', verb, path, nonce, data = '')\<close>: the default
  parameters replace an \<open>undefined\<close> secret and an \<open>undefined\<close> data by the empty string.
\<close>

definition calculateSignature ::
  "'j lib \<Rightarrow> string option \<Rightarrow> string \<Rightarrow> string \<Rightarrow> string option \<Rightarrow> 'j jsdata \<Rightarrow> string" where
  "calculateSignature L secret verb path nonce data =
     (let secret' = (case secret of None \<Rightarrow> [] | Some s \<Rightarrow> s);
          stringData = (case data of
                          Undefined \<Rightarrow> []
                        | Str s \<Rightarrow> s
                        | Json j \<Rightarrow> JSON_stringify L j)
      in createHmac_sha256_hex L secret' (verb @ path @ String_of nonce @ stringData))"

definition checkHmacSignature :: "'j lib \<Rightarrow> string option \<Rightarrow> 'j request \<Rightarrow> bool" where
  "checkHmacSignature L secret req =
     (let signature = headers req ''api-signature'';
          expires = headers req ''api-expires'';
          calculatedSignature =
            calculateSignature L secret (req_method req) (originalUrl req) expires (body req)
      in Some calculatedSignature = signature)"

subsection \<open>Outcomes of the gate middlewares\<close>

text \<open>
  \<open>ACCESS_DENIED\<close> is the message function of \<^verbatim>\<open>../messages\<close>;
  \<open>ACCESS_DENIED_caught\<close> is the same function applied to a caught error object.
  A middleware ends in one of four ways: it sets \<open>req.auth\<close> and calls \<open>cb\<close> without
  an error (\<open>Next\<close>), it calls \<open>cb\<close> with an \<open>Error\<close>, it sends the 403 response, or it
  returns without doing any of these.
\<close>

datatype access_denied = ACCESS_DENIED message | ACCESS_DENIED_caught thrown

datatype 'a outcome =
    Next 'a
  | Callback_Error access_denied
  | Response_403 access_denied
  | No_outcome

definition sendError :: "bool \<Rightarrow> message \<Rightarrow> 'a outcome" where
  "sendError isSocket msg =
     (if isSocket then Callback_Error (ACCESS_DENIED msg)
      else Response_403 (ACCESS_DENIED msg))"

definition sendError_caught :: "bool \<Rightarrow> thrown \<Rightarrow> 'a outcome" where
  "sendError_caught isSocket err =
     (if isSocket then Callback_Error (ACCESS_DENIED_caught err)
      else Response_403 (ACCESS_DENIED_caught err))"

subsection \<open>Bearer token verification\<close>

text \<open>
  lodash's \<open>intersection(a, b)\<close>: the values of \<open>a\<close> that occur in \<open>b\<close>, each once, in
  the order of their first occurrence in \<open>a\<close>.
\<close>

definition intersection :: "'a list \<Rightarrow> 'a list \<Rightarrow> 'a list" where
  "intersection xs ys = filter (\<lambda>x. x \<in> set ys) (rev (remdups (rev xs)))"

text \<open>\<^verbatim>\<open>token && token.indexOf('Bearer ') === 0\<close> and \<^verbatim>\<open>token.split(' ')[1]\<close>.\<close>

definition bearer_format :: "string option \<Rightarrow> bool" where
  "bearer_format token = (case token of None \<Rightarrow> False | Some t \<Rightarrow> take 7 t = ''Bearer '')"

definition tokenString :: "string option \<Rightarrow> string" where
  "tokenString token =
     (case token of None \<Rightarrow> [] | Some t \<Rightarrow> takeWhile (\<lambda>c. c \<noteq> CHR '' '') (drop 7 t))"

text \<open>
  \<open>frozen\<close> is \<open>getFrozenUsers()\<close>, read at a user id. The \<open>scopes\<close> argument of the
  promise variant defaults to \<open>BASE_SCOPES\<close>.
\<close>

definition verifyBearerTokenPromise ::
  "'j lib \<Rightarrow> constants \<Rightarrow> (nat \<Rightarrow> bool) \<Rightarrow> string option \<Rightarrow> string list option
   \<Rightarrow> thrown + decodedToken" where
  "verifyBearerTokenPromise L C frozen token scopes =
     (let scopes' = (case scopes of None \<Rightarrow> BASE_SCOPES C | Some s \<Rightarrow> s) in
      if bearer_format token then
        (case jwt_verify L (tokenString token) (SECRET C) of
           Inl e \<Rightarrow> Inl (JwtError e)
         | Inr decoded \<Rightarrow>
             if length (intersection (jwt_scopes decoded) scopes') = 0
               then Inl (Error NOT_AUTHORIZED)
             else if jwt_iss decoded \<noteq> ISSUER C
               then Inl (Error TOKEN_EXPIRED)
             else if frozen (sub_id (jwt_sub decoded))
               then Inl (Error DEACTIVATED_USER)
             else Inr decoded)
      else Inl (Error MISSING_HEADER))"

definition verifyBearerTokenMiddleware ::
  "'j lib \<Rightarrow> constants \<Rightarrow> (nat \<Rightarrow> bool) \<Rightarrow> 'j request \<Rightarrow> string option \<Rightarrow> bool
   \<Rightarrow> decodedToken outcome" where
  "verifyBearerTokenMiddleware L C frozen req token isSocket =
     (if \<not> has (headers req) ''api-key'' \<and> \<not> has (headers req) ''authorization''
        then sendError isSocket MISSING_HEADER
      else if has (headers req) ''api-key'' \<and> has (headers req) ''authorization''
        then sendError isSocket MULTIPLE_API_KEY
      else if \<not> has (headers req) ''api-key'' \<and> has (headers req) ''authorization''
        then
          (let endpointScopes = (case swagger req of Some s \<Rightarrow> s | None \<Rightarrow> BASE_SCOPES C) in
           if bearer_format token then
             (case jwt_verify L (tokenString token) (SECRET C) of
                Inr decoded \<Rightarrow>
                  if length (intersection (jwt_scopes decoded) endpointScopes) = 0
                    then sendError isSocket NOT_AUTHORIZED
                  else if jwt_iss decoded \<noteq> ISSUER C
                    then sendError isSocket TOKEN_EXPIRED
                  else if frozen (sub_id (jwt_sub decoded))
                    then sendError isSocket DEACTIVATED_USER
                  else Next decoded
              | Inl e \<Rightarrow> sendError isSocket INVALID_TOKEN)
           else sendError isSocket MISSING_HEADER)
      else No_outcome)"

subsection \<open>The store\<close>

text \<open>
  The rows of the tables auth.js reads and writes, with the fields it uses. \<open>revoked\<close>
  is false in a row that \<open>create\<close> makes. Time stamps are milliseconds.
\<close>

record user =
  user_id :: nat
  user_email :: string
  user_password :: string
  user_otp_enabled :: bool

record token =
  token_user_id :: nat
  token_ip :: string
  token_key :: string
  token_secret :: string
  token_expiry :: int
  token_role :: string
  token_type :: string
  token_name :: string
  token_active :: bool
  token_revoked :: bool

record otp_code =
  otp_user_id :: nat
  otp_secret :: string
  otp_used :: bool
  otp_updated_at :: int

record reset_password_code =
  reset_code :: string
  reset_user_id :: nat
  reset_used :: bool

record status =
  api_key :: string
  api_secret :: string

record database =
  users :: "user list"
  tokens :: "token list"
  otp_codes :: "otp_code list"
  reset_password_codes :: "reset_password_code list"
  status_row :: status

text \<open>
  Modelled from the spec: \<open>dbQuery.findOne\<close> of \<^verbatim>\<open>./database/query\<close>, which is not
  among the sources. The store's read contract is find-one, returning the row or
  "not found" (\<open>null\<close>): here the first row of the table that satisfies the \<open>where\<close>
  clause.
\<close>

definition findOne :: "('a \<Rightarrow> bool) \<Rightarrow> 'a list \<Rightarrow> 'a option" where
  "findOne wh rows = find wh rows"

text \<open>
  Modelled from the spec: find-one with \<^verbatim>\<open>order: [['updated_at', 'DESC']]\<close>, the
  matching row that was updated last (the first such row when several share the time).
\<close>

fun most_recent :: "otp_code list \<Rightarrow> otp_code option" where
  "most_recent [] = None"
| "most_recent (x # xs) =
     (case most_recent xs of
        None \<Rightarrow> Some x
      | Some y \<Rightarrow> if otp_updated_at x < otp_updated_at y then Some y else Some x)"

definition findOne_latest :: "(otp_code \<Rightarrow> bool) \<Rightarrow> otp_code list \<Rightarrow> otp_code option" where
  "findOne_latest wh rows = most_recent (filter wh rows)"

text \<open>
  Modelled from the spec: \<open>row.update\<close> of the store's write contract, a field-scoped
  write to the row that find-one returned, which is the first row satisfying the clause.
\<close>

fun update_row :: "('a \<Rightarrow> bool) \<Rightarrow> ('a \<Rightarrow> 'a) \<Rightarrow> 'a list \<Rightarrow> 'a list" where
  "update_row wh f [] = []"
| "update_row wh f (x # xs) = (if wh x then f x # xs else x # update_row wh f xs)"

text \<open>
  Modelled from the spec: \<open>getUserByKitId\<close> of \<^verbatim>\<open>./user\<close>, which is not among the
  sources: find-one of the user with this id.
\<close>

definition getUserByKitId :: "database \<Rightarrow> nat \<Rightarrow> user option" where
  "getUserByKitId db userId = findOne (\<lambda>u. user_id u = userId) (users db)"

subsection \<open>HMAC API keys\<close>

text \<open>
  \<open>findTokenByApiKey\<close> asks for the row with this key and \<open>active: true\<close>, and includes
  the owning user (\<open>null\<close> when there is none).
\<close>

definition findTokenByApiKey :: "database \<Rightarrow> string \<Rightarrow> (token \<times> user option) option" where
  "findTokenByApiKey db apiKey =
     (case findOne (\<lambda>t. token_key t = apiKey \<and> token_active t) (tokens db) of
        None \<Rightarrow> None
      | Some t \<Rightarrow> Some (t, findOne (\<lambda>u. user_id u = token_user_id t) (users db)))"

text \<open>
  \<^verbatim>\<open>moment().unix() > apiExpires\<close>, at the clock \<open>now\<close> (milliseconds): the header
  value is converted to a number, \<open>undefined\<close> to NaN.
\<close>

definition request_expired :: "'j lib \<Rightarrow> int \<Rightarrow> string option \<Rightarrow> bool" where
  "request_expired L now apiExpires =
     js_gt (now div 1000) (case apiExpires of None \<Rightarrow> NaN | Some s \<Rightarrow> ToNumber L s)"

text \<open>The request object that \<open>verifyHmacTokenPromise\<close> builds for the signature check.\<close>

definition signed_request ::
  "string option \<Rightarrow> string option \<Rightarrow> string \<Rightarrow> string \<Rightarrow> 'j jsdata \<Rightarrow> 'j request" where
  "signed_request apiSignature apiExpires method' originalUrl' body' =
     \<lparr> headers = (\<lambda>k. if k = ''api-signature'' then apiSignature
                      else if k = ''api-expires'' then apiExpires
                      else None),
       req_method = method', originalUrl = originalUrl', body = body', swagger = None \<rparr>"

definition verifyHmacTokenPromise ::
  "'j lib \<Rightarrow> constants \<Rightarrow> int \<Rightarrow> database \<Rightarrow> string option \<Rightarrow> string option \<Rightarrow> string option
   \<Rightarrow> string \<Rightarrow> string \<Rightarrow> 'j jsdata \<Rightarrow> string list option \<Rightarrow> thrown + subject" where
  "verifyHmacTokenPromise L C now db apiKey apiSignature apiExpires method' originalUrl' body' scopes =
     (let scopes' = (case scopes of None \<Rightarrow> BASE_SCOPES C | Some s \<Rightarrow> s) in
      if falsy apiKey then Inl (Error API_KEY_NULL)
      else if falsy apiSignature then Inl (Error API_SIGNATURE_NULL)
      else if request_expired L now apiExpires then Inl (Error API_REQUEST_EXPIRED)
      else
        (case findTokenByApiKey db (String_of apiKey) of
           None \<Rightarrow> Inl (Error API_KEY_INVALID)
         | Some (tok, owner) \<Rightarrow>
             if token_type tok \<notin> set scopes' then Inl (Error API_KEY_OUT_OF_SCOPE)
             else if token_expiry tok < now then Inl (Error API_KEY_EXPIRED)
             else if \<not> token_active tok then Inl (Error API_KEY_INACTIVE)
             else if \<not> checkHmacSignature L (Some (token_secret tok))
                        (signed_request apiSignature apiExpires method' originalUrl' body')
               then Inl (Error API_SIGNATURE_INVALID)
             else
               (case owner of
                  None \<Rightarrow> Inl TypeError
                | Some u \<Rightarrow> Inr \<lparr> sub_id = user_id u, sub_email = user_email u \<rparr>)))"

text \<open>
  The middleware variant. A rejection inside the \<open>then\<close> callback (the TypeError of
  \<open>token.user.id\<close> when the key has no owner) is caught and sent by \<open>sendError(err)\<close>.
\<close>

definition verifyHmacTokenMiddleware ::
  "'j lib \<Rightarrow> constants \<Rightarrow> int \<Rightarrow> database \<Rightarrow> 'j request \<Rightarrow> string option \<Rightarrow> bool
   \<Rightarrow> subject outcome" where
  "verifyHmacTokenMiddleware L C now db req apiKey isSocket =
     (let endpointScopes = (case swagger req of Some s \<Rightarrow> s | None \<Rightarrow> BASE_SCOPES C);
          apiSignature = headers req ''api-signature'';
          apiExpires = headers req ''api-expires''
      in
      if has (headers req) ''api-key'' \<and> has (headers req) ''authorization''
        then sendError isSocket MULTIPLE_API_KEY
      else if has (headers req) ''api-key'' \<and> \<not> has (headers req) ''authorization''
        then
          (if falsy apiKey then sendError isSocket API_KEY_NULL
           else if request_expired L now apiExpires then sendError isSocket API_REQUEST_EXPIRED
           else if falsy apiSignature then sendError isSocket API_SIGNATURE_NULL
           else
             (case findTokenByApiKey db (String_of apiKey) of
                None \<Rightarrow> sendError isSocket API_KEY_INVALID
              | Some (tok, owner) \<Rightarrow>
                  if token_type tok \<notin> set endpointScopes
                    then sendError isSocket API_KEY_OUT_OF_SCOPE
                  else if token_expiry tok < now then sendError isSocket API_KEY_EXPIRED
                  else if \<not> token_active tok then sendError isSocket API_KEY_INACTIVE
                  else if \<not> checkHmacSignature L (Some (token_secret tok)) req
                    then sendError isSocket API_SIGNATURE_INVALID
                  else
                    (case owner of
                       None \<Rightarrow> sendError_caught isSocket TypeError
                     | Some u \<Rightarrow> Next \<lparr> sub_id = user_id u, sub_email = user_email u \<rparr>)))
      else No_outcome)"

text \<open>
  \<open>getApiKeySecret\<close> returns a promise of the status row's key and secret.
  \<open>verifyNetworkHmacToken\<close> keeps the promise object itself in \<open>systemKeySecret\<close>: it
  neither awaits it nor chains \<open>then\<close>, so \<open>systemKeySecret.apiSecret\<close> reads a property
  that a promise object does not have, which is \<open>undefined\<close>.
\<close>

record key_secret =
  apiKey_of :: string
  apiSecret_of :: string

datatype 'a promise = Promise "thrown + 'a"

definition getApiKeySecret :: "database \<Rightarrow> key_secret promise" where
  "getApiKeySecret db =
     Promise (Inr \<lparr> apiKey_of = api_key (status_row db), apiSecret_of = api_secret (status_row db) \<rparr>)"

definition promise_property :: "'a promise \<Rightarrow> string \<Rightarrow> string option" where
  "promise_property p name = None"

definition verifyNetworkHmacToken :: "'j lib \<Rightarrow> int \<Rightarrow> database \<Rightarrow> 'j request \<Rightarrow> thrown + unit" where
  "verifyNetworkHmacToken L now db req =
     (let apiKey = headers req ''api-key'';
          apiSignature = headers req ''api-signature'';
          apiExpires = headers req ''api-expires'';
          systemKeySecret = getApiKeySecret db
      in
      if falsy apiKey then Inl (Error API_KEY_NULL)
      else if falsy apiSignature then Inl (Error API_SIGNATURE_NULL)
      else if request_expired L now apiExpires then Inl (Error API_REQUEST_EXPIRED)
      else if \<not> checkHmacSignature L (promise_property systemKeySecret ''apiSecret'') req
        then Inl (Error API_SIGNATURE_INVALID)
      else Inr ())"

subsection \<open>One-time passwords\<close>

text \<open>
  Modelled from the spec: \<open>otp(options).totp()\<close> of the npm package \<open>otp\<close>, which is
  not among the sources. The spec describes it as the standard time-step computation
  with an epoch offset in seconds and a step of 30 seconds: the code of the counter
  \<open>floor((now - epoch) / 30 s)\<close>. \<open>now\<close> is the clock in milliseconds.
\<close>

definition otp_totp :: "'j lib \<Rightarrow> int \<Rightarrow> string \<Rightarrow> int \<Rightarrow> string" where
  "otp_totp L now secret epoch = hotp L secret ((now - epoch * 1000) div 30000)"

text \<open>\<^verbatim>\<open>generateOtp = (secret, epoch = 0)\<close>.\<close>

definition generateOtp :: "'j lib \<Rightarrow> int \<Rightarrow> string \<Rightarrow> int option \<Rightarrow> string" where
  "generateOtp L now secret epoch =
     otp_totp L now secret (case epoch of None \<Rightarrow> 0 | Some e \<Rightarrow> e)"

text \<open>
  Each of the three calls of \<open>generateOtp\<close> reads the clock for itself, inside
  \<open>totp()\<close>: \<open>t1\<close>, \<open>t2\<close> and \<open>t3\<close> are these readings, in the order of the calls.
  \<open>includes\<close> compares the candidate with each code; an \<open>undefined\<close> candidate equals
  none.
\<close>

type_synonym otp_clock = "int \<times> int \<times> int"

definition verifyOtp :: "'j lib \<Rightarrow> otp_clock \<Rightarrow> string \<Rightarrow> string option \<Rightarrow> bool" where
  "verifyOtp L reads userSecret userDigits =
     (case reads of
        (t1, t2, t3) \<Rightarrow>
          (let serverDigits =
                 [generateOtp L t1 userSecret (Some 30),
                  generateOtp L t2 userSecret None,
                  generateOtp L t3 userSecret (Some (- 30))]
           in case userDigits of None \<Rightarrow> False | Some d \<Rightarrow> d \<in> set serverDigits))"

definition hasUserOtpEnabled :: "database \<Rightarrow> nat \<Rightarrow> thrown + bool" where
  "hasUserOtpEnabled db userId =
     (case findOne (\<lambda>u. user_id u = userId) (users db) of
        None \<Rightarrow> Inl TypeError
      | Some u \<Rightarrow> Inr (user_otp_enabled u))"

definition verifyUserOtpCode ::
  "'j lib \<Rightarrow> otp_clock \<Rightarrow> database \<Rightarrow> nat \<Rightarrow> string option \<Rightarrow> thrown + bool" where
  "verifyUserOtpCode L reads db userId otp_code' =
     (case findOne_latest (\<lambda>c. otp_used c \<and> otp_user_id c = userId) (otp_codes db) of
        None \<Rightarrow> Inl TypeError
      | Some otpCode \<Rightarrow>
          if \<not> verifyOtp L reads (otp_secret otpCode) otp_code'
            then Inl (Error INVALID_OTP_CODE)
          else Inr True)"

definition verifyOtpBeforeAction ::
  "'j lib \<Rightarrow> otp_clock \<Rightarrow> database \<Rightarrow> nat \<Rightarrow> string option \<Rightarrow> thrown + bool" where
  "verifyOtpBeforeAction L reads db userId otp_code' =
     (case hasUserOtpEnabled db userId of
        Inl e \<Rightarrow> Inl e
      | Inr otp_enabled \<Rightarrow>
          if otp_enabled then verifyUserOtpCode L reads db userId otp_code' else Inr True)"

text \<open>
  \<open>all([...])\<close> is rejected with the rejection of \<open>verifyOtpBeforeAction\<close> (the user
  lookup itself resolves, with \<open>null\<close> when there is no such user); otherwise the
  callback reads \<open>user.otp_enabled\<close>.
\<close>

definition checkUserOtpActive ::
  "'j lib \<Rightarrow> otp_clock \<Rightarrow> database \<Rightarrow> nat \<Rightarrow> string option \<Rightarrow> thrown + unit" where
  "checkUserOtpActive L reads db userId otpCode =
     (case verifyOtpBeforeAction L reads db userId otpCode of
        Inl e \<Rightarrow> Inl e
      | Inr validOtp \<Rightarrow>
          (case getUserByKitId db userId of
             None \<Rightarrow> Inl TypeError
           | Some u \<Rightarrow>
               if \<not> user_otp_enabled u then Inl (Error TOKEN_OTP_MUST_BE_ENABLED)
               else if \<not> validOtp then Inl (Error INVALID_OTP_CODE)
               else Inr ()))"

subsection \<open>Creating an API key\<close>

text \<open>
  \<open>key\<close> and \<open>secret\<close> are the hex strings of \<open>crypto.randomBytes\<close>, \<open>now\<close> is
  \<open>Date.now()\<close>, \<open>reads\<close> are the clock readings of the code check. The result carries
  the user id and the new pair.
\<close>

record created_key =
  created_id :: nat
  created_apiKey :: string
  created_secret :: string

definition createUserKitHmacToken ::
  "'j lib \<Rightarrow> constants \<Rightarrow> int \<Rightarrow> otp_clock \<Rightarrow> string \<Rightarrow> string \<Rightarrow> database \<Rightarrow> nat
   \<Rightarrow> string option \<Rightarrow> string \<Rightarrow> string \<Rightarrow> (thrown + created_key) \<times> database" where
  "createUserKitHmacToken L C now reads key secret db userId otpCode ip name' =
     (let expiry = now + HMAC_TOKEN_EXPIRY C in
      case checkUserOtpActive L reads db userId otpCode of
        Inl e \<Rightarrow> (Inl e, db)
      | Inr _ \<Rightarrow>
          (Inr \<lparr> created_id = userId, created_apiKey = key, created_secret = secret \<rparr>,
           db \<lparr> tokens := tokens db @
                  [\<lparr> token_user_id = userId, token_ip = ip, token_key = key,
                     token_secret = secret, token_expiry = expiry,
                     token_role = ROLES_USER C, token_type = TOKEN_TYPES_HMAC C,
                     token_name = name', token_active = True, token_revoked = False \<rparr>] \<rparr>))"

subsection \<open>Password reset\<close>

text \<open>
  \<^verbatim>\<open>/^(?=.*[a-zA-Z])(?=.*\d).{8,}$/\<close>: the dot matches any character but a line
  terminator and the pattern is anchored at both ends, so the string has at least eight
  characters, none of them a line terminator, a letter and a digit among them.
\<close>

definition is_letter :: "char \<Rightarrow> bool" where
  "is_letter c = (c \<in> set ''abcdefghijklmnopqrstuvwxyzABCDEFGHIJKLMNOPQRSTUVWXYZ'')"

definition is_digit :: "char \<Rightarrow> bool" where
  "is_digit c = (c \<in> set ''0123456789'')"

definition line_terminator :: "char \<Rightarrow> bool" where
  "line_terminator c = (c = CHR 0x0A \<or> c = CHR 0x0D)"

definition isValidPassword :: "string \<Rightarrow> bool" where
  "isValidPassword v =
     (list_ex is_letter v \<and> list_ex is_digit v \<and> 8 \<le> length v
      \<and> \<not> list_ex line_terminator v)"

definition getResetPasswordCode :: "database \<Rightarrow> string \<Rightarrow> thrown + reset_password_code" where
  "getResetPasswordCode db c =
     (case findOne (\<lambda>r. reset_code r = c) (reset_password_codes db) of
        None \<Rightarrow> Inl (Error_with_status CODE_NOT_FOUND 404)
      | Some r \<Rightarrow> Inr r)"

text \<open>
  The result is the updated user. The code is marked used before the user is looked up,
  so a missing user leaves the code consumed.
\<close>

definition resetUserPassword ::
  "database \<Rightarrow> string \<Rightarrow> string \<Rightarrow> (thrown + user) \<times> database" where
  "resetUserPassword db resetPasswordCode newPassword =
     (if \<not> isValidPassword newPassword then (Inl (Error INVALID_PASSWORD), db)
      else
        (case getResetPasswordCode db resetPasswordCode of
           Inl e \<Rightarrow> (Inl e, db)
         | Inr c \<Rightarrow>
             if reset_used c then (Inl (Error CODE_USED), db)
             else
               (let db1 = db \<lparr> reset_password_codes :=
                                 update_row (\<lambda>r. reset_code r = resetPasswordCode)
                                   (\<lambda>r. r \<lparr> reset_used := True \<rparr>) (reset_password_codes db) \<rparr>
                in case getUserByKitId db1 (reset_user_id c) of
                     None \<Rightarrow> (Inl TypeError, db1)
                   | Some u \<Rightarrow>
                       (Inr (u \<lparr> user_password := newPassword \<rparr>),
                        db1 \<lparr> users :=
                                update_row (\<lambda>v. user_id v = user_id u)
                                  (\<lambda>v. v \<lparr> user_password := newPassword \<rparr>) (users db1) \<rparr>))))"

subsection \<open>Sample instances\<close>

text \<open>
  Concrete library functions, constants, store and requests, at which the theorems below
  are evaluated. \<open>sample_ToNumber\<close> converts a string of decimal digits. The sample MAC
  joins key and message; the sample verifier accepts the one token \<open>signed\<close>, whose
  payload names another issuer; the sample one-time code depends on the counter only.
\<close>

definition sample_ToNumber :: "string \<Rightarrow> jsnum" where
  "sample_ToNumber s =
     (if list_all is_digit s
      then Num (fold (\<lambda>c n. 10 * n + (int (of_char c) - 48)) s 0)
      else NaN)"

definition sample_token :: decodedToken where
  "sample_token =
     \<lparr> jwt_sub = \<lparr> sub_id = 1, sub_email = ''ada@example.com'' \<rparr>,
       jwt_scopes = [''user''], jwt_ip = ''10.0.0.1'', jwt_iss = ''another-issuer'' \<rparr>"

definition sample_lib :: "string lib" where
  "sample_lib =
     \<lparr> createHmac_sha256_hex = (\<lambda>k m. k @ '':'' @ m),
       JSON_stringify = (\<lambda>j. j),
       jwt_verify = (\<lambda>t s. if t = ''signed'' then Inr sample_token else Inl ''invalid signature''),
       ToNumber = sample_ToNumber,
       hotp = (\<lambda>s c. if c = 3 then ''333333'' else ''000000'') \<rparr>"

definition sample_constants :: constants where
  "sample_constants =
     \<lparr> BASE_SCOPES = [''user''], ISSUER = ''hollaex'', SECRET = ''shhh'',
       ROLES_USER = ''user'', TOKEN_TYPES_HMAC = ''hmac'', HMAC_TOKEN_EXPIRY = 1000 \<rparr>"

definition sample_request :: "(string \<rightharpoonup> string) \<Rightarrow> string request" where
  "sample_request h =
     \<lparr> headers = h, req_method = ''GET'', originalUrl = ''/v2/user'', body = Undefined,
       swagger = None \<rparr>"

definition sample_db :: database where
  "sample_db =
     \<lparr> users =
         [\<lparr> user_id = 1, user_email = ''ada@example.com'', user_password = ''hash-a'',
            user_otp_enabled = False \<rparr>,
          \<lparr> user_id = 2, user_email = ''bob@example.com'', user_password = ''hash-b'',
            user_otp_enabled = True \<rparr>],
       tokens =
         [\<lparr> token_user_id = 2, token_ip = ''10.0.0.2'', token_key = ''k1'',
            token_secret = ''s1'', token_expiry = 9000000, token_role = ''user'',
            token_type = ''hmac'', token_name = ''bot'', token_active = False,
            token_revoked = True \<rparr>],
       otp_codes =
         [\<lparr> otp_user_id = 2, otp_secret = ''seed'', otp_used = True, otp_updated_at = 5 \<rparr>],
       reset_password_codes =
         [\<lparr> reset_code = ''c0de'', reset_user_id = 1, reset_used = True \<rparr>],
       status_row = \<lparr> api_key = ''syskey'', api_secret = ''syssecret'' \<rparr> \<rparr>"

section \<open>Theorems\<close>

subsection \<open>Signature engine\<close>

text \<open>
  C7. \<open>calculateSignature\<close> is the hex HMAC-SHA256, keyed by the secret, of the
  concatenation of verb, path, nonce and the data, the data taken as it is when it is a
  string and through \<open>JSON.stringify\<close> otherwise. Being this function of its five
  arguments, it gives equal results on equal arguments. \<open>checkHmacSignature\<close> holds
  exactly when the \<open>api-signature\<close> header equals the signature recomputed over the
  request's method, path, \<open>api-expires\<close> header and body.
\<close>

theorem calculateSignature_is_hmac_of_concatenation:
  "calculateSignature L (Some secret) verb path (Some nonce) (Str s)
     = createHmac_sha256_hex L secret (verb @ path @ nonce @ s)
   \<and> calculateSignature L (Some secret) verb path (Some nonce) (Json j)
     = createHmac_sha256_hex L secret (verb @ path @ nonce @ JSON_stringify L j)
   \<and> checkHmacSignature L (Some secret) req
     = (headers req ''api-signature''
          = Some (calculateSignature L (Some secret) (req_method req) (originalUrl req)
                    (headers req ''api-expires'') (body req)))"
  by (simp add: calculateSignature_def checkHmacSignature_def String_of_def Let_def eq_commute)

text \<open>
  The default parameters: an omitted secret is the empty key, omitted data the empty
  string, and an absent nonce is concatenated as the text \<open>undefined\<close>.
\<close>

lemma calculateSignature_defaults:
  "calculateSignature L None verb path None Undefined
     = createHmac_sha256_hex L [] (verb @ path @ ''undefined'')"
  by (simp add: calculateSignature_def String_of_def)

subsection \<open>The gate middlewares\<close>

text \<open>
  C10. On a request that has the \<open>api-key\<close> header and no \<open>authorization\<close> header,
  \<open>verifyBearerTokenMiddleware\<close> ends without an outcome: it neither calls the callback
  nor sends a response.
\<close>

theorem verifyBearerTokenMiddleware_api_key_only:
  assumes "has (headers req) ''api-key''" and "\<not> has (headers req) ''authorization''"
  shows "verifyBearerTokenMiddleware L C frozen req token isSocket = No_outcome"
  using assms by (simp add: verifyBearerTokenMiddleware_def)

theorem verifyBearerTokenMiddleware_api_key_only_witness:
  "verifyBearerTokenMiddleware sample_lib sample_constants (\<lambda>u. False)
     (sample_request [''api-key'' \<mapsto> ''k1'']) None False = No_outcome"
  using verifyBearerTokenMiddleware_api_key_only
          [of "sample_request [''api-key'' \<mapsto> ''k1'']" sample_lib sample_constants
              "\<lambda>u. False" None False]
  by (simp add: has_def sample_request_def)

text \<open>
  C5. A request that has both the \<open>api-key\<close> and the \<open>authorization\<close> header is
  rejected with \<open>MULTIPLE_API_KEY\<close> by the bearer middleware and by the HMAC middleware,
  whatever the values of the headers, the token, the key and the store are.
\<close>

theorem both_headers_MULTIPLE_API_KEY:
  assumes "has (headers req) ''api-key''" and "has (headers req) ''authorization''"
  shows "verifyBearerTokenMiddleware L C frozen req token isSocket
           = sendError isSocket MULTIPLE_API_KEY
         \<and> verifyHmacTokenMiddleware L C now db req apiKey isSocket
           = sendError isSocket MULTIPLE_API_KEY"
  using assms by (simp add: verifyBearerTokenMiddleware_def verifyHmacTokenMiddleware_def)

theorem both_headers_MULTIPLE_API_KEY_witness:
  "verifyBearerTokenMiddleware sample_lib sample_constants (\<lambda>u. False)
     (sample_request [''api-key'' \<mapsto> ''k1'', ''authorization'' \<mapsto> ''Bearer signed''])
     (Some ''Bearer signed'') False
     = Response_403 (ACCESS_DENIED MULTIPLE_API_KEY)
   \<and> verifyHmacTokenMiddleware sample_lib sample_constants 1000000 sample_db
     (sample_request [''api-key'' \<mapsto> ''k1'', ''authorization'' \<mapsto> ''Bearer signed''])
     (Some ''k1'') False
     = Response_403 (ACCESS_DENIED MULTIPLE_API_KEY)"
  using both_headers_MULTIPLE_API_KEY
          [of "sample_request [''api-key'' \<mapsto> ''k1'', ''authorization'' \<mapsto> ''Bearer signed'']"
              sample_lib sample_constants "\<lambda>u. False" "Some ''Bearer signed''" False
              1000000 sample_db "Some ''k1''"]
  by (simp add: has_def sample_request_def sendError_def)

subsection \<open>Bearer tokens\<close>

lemma intersection_empty_iff: "intersection xs ys = [] \<longleftrightarrow> set xs \<inter> set ys = {}"
  by (auto simp: intersection_def filter_empty_conv)

lemma bearer_format_signed: "bearer_format (Some ''Bearer signed'')"
  by (simp add: bearer_format_def)

lemma tokenString_signed: "tokenString (Some ''Bearer signed'') = ''signed''"
  by (simp add: tokenString_def)

lemma tokenString_forged: "tokenString (Some ''Bearer forged'') = ''forged''"
  by (simp add: tokenString_def)

lemma bearer_format_forged: "bearer_format (Some ''Bearer forged'')"
  by (simp add: bearer_format_def)

text \<open>
  A token that \<open>jwt.verify\<close> rejects is answered before its scopes are looked at.
\<close>

lemma rejected_by_jwt_verify:
  assumes "bearer_format token"
    and "jwt_verify L (tokenString token) (SECRET C) = Inl e"
  shows "verifyBearerTokenPromise L C frozen token scopes = Inl (JwtError e)"
    and "\<not> has (headers req) ''api-key'' \<Longrightarrow> has (headers req) ''authorization''
         \<Longrightarrow> verifyBearerTokenMiddleware L C frozen req token isSocket
             = sendError isSocket INVALID_TOKEN"
  using assms
  by (simp_all add: verifyBearerTokenPromise_def verifyBearerTokenMiddleware_def)

text \<open>
  C2, as the claim states it, fails: a token that \<open>jwt.verify\<close> rejects never reaches
  the scope check. Whatever scopes it embeds, the promise variant is rejected with the
  verifier's own error and the middleware answers \<open>INVALID_TOKEN\<close>.
\<close>

theorem unverified_token_not_NOT_AUTHORIZED:
  "verifyBearerTokenPromise sample_lib sample_constants (\<lambda>u. False) (Some ''Bearer forged'')
     (Some [''admin'']) = Inl (JwtError ''invalid signature'')
   \<and> verifyBearerTokenMiddleware sample_lib sample_constants (\<lambda>u. False)
       (sample_request [''authorization'' \<mapsto> ''Bearer forged'']) (Some ''Bearer forged'') False
     = Response_403 (ACCESS_DENIED INVALID_TOKEN)"
proof
  show "verifyBearerTokenPromise sample_lib sample_constants (\<lambda>u. False)
          (Some ''Bearer forged'') (Some [''admin'']) = Inl (JwtError ''invalid signature'')"
    by (simp add: verifyBearerTokenPromise_def bearer_format_forged tokenString_forged
        sample_lib_def)
  show "verifyBearerTokenMiddleware sample_lib sample_constants (\<lambda>u. False)
          (sample_request [''authorization'' \<mapsto> ''Bearer forged'']) (Some ''Bearer forged'') False
        = Response_403 (ACCESS_DENIED INVALID_TOKEN)"
    by (simp add: verifyBearerTokenMiddleware_def bearer_format_forged tokenString_forged
        sample_lib_def sample_request_def has_def sendError_def)
qed

text \<open>
  C2, amended. For every token of the form \<open>Bearer <t>\<close> that \<open>jwt.verify\<close> accepts and
  whose decoded scopes share no value with the required scopes, the promise variant is
  rejected with \<open>NOT_AUTHORIZED\<close>, and so is the request by the middleware when the
  request has the \<open>authorization\<close> header and no \<open>api-key\<close> header.
\<close>

theorem verified_token_without_scope_NOT_AUTHORIZED:
  assumes "bearer_format token"
    and "jwt_verify L (tokenString token) (SECRET C) = Inr decoded"
  shows "(set (jwt_scopes decoded) \<inter> set (case scopes of None \<Rightarrow> BASE_SCOPES C | Some s \<Rightarrow> s) = {}
            \<longrightarrow> verifyBearerTokenPromise L C frozen token scopes = Inl (Error NOT_AUTHORIZED))
       \<and> (\<not> has (headers req) ''api-key'' \<and> has (headers req) ''authorization''
            \<and> set (jwt_scopes decoded)
                \<inter> set (case swagger req of Some s \<Rightarrow> s | None \<Rightarrow> BASE_SCOPES C) = {}
            \<longrightarrow> verifyBearerTokenMiddleware L C frozen req token isSocket
                  = sendError isSocket NOT_AUTHORIZED)"
  using assms
  by (simp add: verifyBearerTokenPromise_def verifyBearerTokenMiddleware_def
      intersection_empty_iff)

theorem verified_token_without_scope_NOT_AUTHORIZED_witness:
  "verifyBearerTokenPromise sample_lib sample_constants (\<lambda>u. False) (Some ''Bearer signed'')
     (Some [''admin'']) = Inl (Error NOT_AUTHORIZED)
   \<and> verifyBearerTokenMiddleware sample_lib sample_constants (\<lambda>u. False)
       ((sample_request [''authorization'' \<mapsto> ''Bearer signed''])
          \<lparr> swagger := Some [''admin''] \<rparr>)
       (Some ''Bearer signed'') False
     = Response_403 (ACCESS_DENIED NOT_AUTHORIZED)"
  using verified_token_without_scope_NOT_AUTHORIZED
          [where token = "Some ''Bearer signed''" and L = sample_lib and C = sample_constants
             and decoded = sample_token and scopes = "Some [''admin'']"
             and req = "(sample_request [''authorization'' \<mapsto> ''Bearer signed''])
                          \<lparr> swagger := Some [''admin''] \<rparr>"
             and frozen = "\<lambda>u. False" and isSocket = False]
  by (simp add: bearer_format_signed tokenString_signed sample_lib_def sample_token_def
      sample_request_def has_def sendError_def)

text \<open>
  C6. For every token of the form \<open>Bearer <t>\<close> that \<open>jwt.verify\<close> accepts (signature
  and expiry are its business) and whose decoded scopes share a value with the required
  scopes, an issuer other than \<open>ISSUER\<close> is answered with \<open>TOKEN_EXPIRED\<close>, by the
  promise variant and by the middleware; \<open>INVALID_TOKEN\<close> is a different message.
\<close>

theorem issuer_mismatch_TOKEN_EXPIRED:
  assumes "bearer_format token"
    and "jwt_verify L (tokenString token) (SECRET C) = Inr decoded"
    and "jwt_iss decoded \<noteq> ISSUER C"
  shows "(set (jwt_scopes decoded) \<inter> set (case scopes of None \<Rightarrow> BASE_SCOPES C | Some s \<Rightarrow> s) \<noteq> {}
            \<longrightarrow> verifyBearerTokenPromise L C frozen token scopes = Inl (Error TOKEN_EXPIRED))
       \<and> (\<not> has (headers req) ''api-key'' \<and> has (headers req) ''authorization''
            \<and> set (jwt_scopes decoded)
                \<inter> set (case swagger req of Some s \<Rightarrow> s | None \<Rightarrow> BASE_SCOPES C) \<noteq> {}
            \<longrightarrow> verifyBearerTokenMiddleware L C frozen req token isSocket
                  = sendError isSocket TOKEN_EXPIRED)
       \<and> TOKEN_EXPIRED \<noteq> INVALID_TOKEN"
  using assms
  by (simp add: verifyBearerTokenPromise_def verifyBearerTokenMiddleware_def
      intersection_empty_iff)

theorem issuer_mismatch_TOKEN_EXPIRED_witness:
  "verifyBearerTokenPromise sample_lib sample_constants (\<lambda>u. False) (Some ''Bearer signed'')
     None = Inl (Error TOKEN_EXPIRED)
   \<and> verifyBearerTokenMiddleware sample_lib sample_constants (\<lambda>u. False)
       (sample_request [''authorization'' \<mapsto> ''Bearer signed'']) (Some ''Bearer signed'') True
     = Callback_Error (ACCESS_DENIED TOKEN_EXPIRED)"
  using issuer_mismatch_TOKEN_EXPIRED
          [where token = "Some ''Bearer signed''" and L = sample_lib and C = sample_constants
             and decoded = sample_token and scopes = None
             and req = "sample_request [''authorization'' \<mapsto> ''Bearer signed'']"
             and frozen = "\<lambda>u. False" and isSocket = True]
  by (simp add: bearer_format_signed tokenString_signed sample_lib_def sample_token_def
      sample_constants_def sample_request_def has_def sendError_def)

subsection \<open>HMAC API keys\<close>

lemma findTokenByApiKey_no_active_row:
  assumes "\<forall>t \<in> set (tokens db). token_key t = k \<longrightarrow> \<not> token_active t"
  shows "findTokenByApiKey db k = None"
  using assms
  by (auto simp: findTokenByApiKey_def findOne_def find_None_iff split: option.splits)

lemma verifyHmacTokenPromise_unknown_key_fails:
  assumes "findTokenByApiKey db k = None"
  shows "verifyHmacTokenPromise L C now db (Some k) apiSignature apiExpires method' url body' scopes
           \<noteq> Inr s"
  using assms by (simp add: verifyHmacTokenPromise_def String_of_def)

lemma verifyHmacTokenPromise_unknown_key_invalid:
  assumes "findTokenByApiKey db k = None"
    and "k \<noteq> []" and "\<not> falsy apiSignature" and "\<not> request_expired L now apiExpires"
  shows "verifyHmacTokenPromise L C now db (Some k) apiSignature apiExpires method' url body' scopes
           = Inl (Error API_KEY_INVALID)"
  using assms by (simp add: verifyHmacTokenPromise_def String_of_def falsy_def)

lemma verifyHmacTokenMiddleware_unknown_key_fails:
  assumes "findTokenByApiKey db k = None"
  shows "verifyHmacTokenMiddleware L C now db req (Some k) isSocket \<noteq> Next s"
  using assms
  by (simp add: verifyHmacTokenMiddleware_def String_of_def sendError_def)

lemma sample_ToNumber_2000: "sample_ToNumber ''2000'' = Num 2000"
  by (simp add: sample_ToNumber_def is_digit_def)

lemma sample_request_not_expired: "\<not> request_expired sample_lib 1000000 (Some ''2000'')"
  by (simp add: request_expired_def sample_lib_def sample_ToNumber_2000)

text \<open>
  C4. When every row of the token table that has the presented key is inactive (so in
  particular when the key's row was revoked, \<open>active\<close> false and \<open>revoked\<close> true), HMAC
  verification never succeeds, neither as a promise nor in the middleware; and when the
  key and the signature are present and the request window is open, whatever the
  signature is, the promise is rejected with \<open>API_KEY_INVALID\<close>: the lookup asks for an
  active row and finds none.
\<close>

theorem inactive_api_key_never_verifies:
  assumes "\<forall>t \<in> set (tokens db). token_key t = k \<longrightarrow> \<not> token_active t"
  shows "(\<forall>s. verifyHmacTokenPromise L C now db (Some k) apiSignature apiExpires method' url
                body' scopes \<noteq> Inr s)
       \<and> (\<forall>s. verifyHmacTokenMiddleware L C now db req (Some k) isSocket \<noteq> Next s)
       \<and> (k \<noteq> [] \<and> \<not> falsy apiSignature \<and> \<not> request_expired L now apiExpires
            \<longrightarrow> verifyHmacTokenPromise L C now db (Some k) apiSignature apiExpires method' url
                  body' scopes = Inl (Error API_KEY_INVALID))"
proof -
  have none: "findTokenByApiKey db k = None"
    using assms by (rule findTokenByApiKey_no_active_row)
  show ?thesis
  proof (intro conjI allI impI)
    fix s
    show "verifyHmacTokenPromise L C now db (Some k) apiSignature apiExpires method' url
            body' scopes \<noteq> Inr s"
      by (rule verifyHmacTokenPromise_unknown_key_fails [OF none])
  next
    fix s
    show "verifyHmacTokenMiddleware L C now db req (Some k) isSocket \<noteq> Next s"
      by (rule verifyHmacTokenMiddleware_unknown_key_fails [OF none])
  next
    assume "k \<noteq> [] \<and> \<not> falsy apiSignature \<and> \<not> request_expired L now apiExpires"
    then show "verifyHmacTokenPromise L C now db (Some k) apiSignature apiExpires method' url
                 body' scopes = Inl (Error API_KEY_INVALID)"
      by (simp add: verifyHmacTokenPromise_unknown_key_invalid [OF none])
  qed
qed

text \<open>
  The revoked key \<open>k1\<close> of the sample store, presented with the signature that its own
  secret gives and an open window.
\<close>

theorem inactive_api_key_never_verifies_witness:
  "checkHmacSignature sample_lib (Some ''s1'')
     (signed_request (Some ''s1:GET/v2/user2000'') (Some ''2000'') ''GET'' ''/v2/user'' Undefined)
   \<and> verifyHmacTokenPromise sample_lib sample_constants 1000000 sample_db (Some ''k1'')
       (Some ''s1:GET/v2/user2000'') (Some ''2000'') ''GET'' ''/v2/user'' Undefined
       (Some [''hmac''])
     = Inl (Error API_KEY_INVALID)"
proof
  show "checkHmacSignature sample_lib (Some ''s1'')
     (signed_request (Some ''s1:GET/v2/user2000'') (Some ''2000'') ''GET'' ''/v2/user'' Undefined)"
    by (simp add: checkHmacSignature_def calculateSignature_def signed_request_def
        String_of_def sample_lib_def)
  have "\<forall>t \<in> set (tokens sample_db). token_key t = ''k1'' \<longrightarrow> \<not> token_active t"
    by (simp add: sample_db_def)
  from inactive_api_key_never_verifies [OF this, where L = sample_lib and now = 1000000
      and apiSignature = "Some ''s1:GET/v2/user2000''" and apiExpires = "Some ''2000''"]
  show "verifyHmacTokenPromise sample_lib sample_constants 1000000 sample_db (Some ''k1'')
       (Some ''s1:GET/v2/user2000'') (Some ''2000'') ''GET'' ''/v2/user'' Undefined
       (Some [''hmac''])
     = Inl (Error API_KEY_INVALID)"
    by (simp add: falsy_def sample_request_not_expired)
qed

text \<open>
  The header checks of \<open>verifyNetworkHmacToken\<close>, and what it resolves on: the signature
  check is made with an \<open>undefined\<close> secret, so the store has no part in the result.
\<close>

lemma verifyNetworkHmacToken_header_checks:
  "falsy (headers req ''api-key'')
     \<Longrightarrow> verifyNetworkHmacToken L now db req = Inl (Error API_KEY_NULL)"
  "\<not> falsy (headers req ''api-key'') \<Longrightarrow> falsy (headers req ''api-signature'')
     \<Longrightarrow> verifyNetworkHmacToken L now db req = Inl (Error API_SIGNATURE_NULL)"
  "\<not> falsy (headers req ''api-key'') \<Longrightarrow> \<not> falsy (headers req ''api-signature'')
     \<Longrightarrow> request_expired L now (headers req ''api-expires'')
     \<Longrightarrow> verifyNetworkHmacToken L now db req = Inl (Error API_REQUEST_EXPIRED)"
  by (simp_all add: verifyNetworkHmacToken_def)

lemma verifyNetworkHmacToken_resolves_iff:
  "(verifyNetworkHmacToken L now db req = Inr ())
     = (\<not> falsy (headers req ''api-key'') \<and> \<not> falsy (headers req ''api-signature'')
        \<and> \<not> request_expired L now (headers req ''api-expires'')
        \<and> checkHmacSignature L None req)"
  by (simp add: verifyNetworkHmacToken_def promise_property_def)

lemma verifyNetworkHmacToken_empty_key_resolves:
  "verifyNetworkHmacToken sample_lib 1000000 sample_db
     (sample_request [''api-key'' \<mapsto> ''syskey'', ''api-expires'' \<mapsto> ''2000'',
                      ''api-signature'' \<mapsto> '':GET/v2/user2000'']) = Inr ()"
  by (simp add: verifyNetworkHmacToken_def checkHmacSignature_def calculateSignature_def
      promise_property_def request_expired_def sample_ToNumber_2000 falsy_def String_of_def
      sample_request_def sample_lib_def)

lemma verifyNetworkHmacToken_stored_secret_rejected:
  "verifyNetworkHmacToken sample_lib 1000000 sample_db
     (sample_request [''api-key'' \<mapsto> ''syskey'', ''api-expires'' \<mapsto> ''2000'',
                      ''api-signature'' \<mapsto> ''syssecret:GET/v2/user2000''])
   = Inl (Error API_SIGNATURE_INVALID)"
  by (simp add: verifyNetworkHmacToken_def checkHmacSignature_def calculateSignature_def
      promise_property_def request_expired_def sample_ToNumber_2000 falsy_def String_of_def
      sample_request_def sample_lib_def)

lemma stored_secret_signature_valid:
  "checkHmacSignature sample_lib (Some (api_secret (status_row sample_db)))
     (sample_request [''api-key'' \<mapsto> ''syskey'', ''api-expires'' \<mapsto> ''2000'',
                      ''api-signature'' \<mapsto> ''syssecret:GET/v2/user2000''])"
  by (simp add: checkHmacSignature_def calculateSignature_def String_of_def
      sample_request_def sample_lib_def sample_db_def)

text \<open>
  C3. The code at the store whose status row holds the secret \<open>syssecret\<close>, the clock at
  1000 s and \<open>api-expires\<close> 2000: the request signed with the empty key resolves, and the
  request signed with the stored secret, whose signature \<open>checkHmacSignature\<close> accepts
  for that secret, is rejected with \<open>API_SIGNATURE_INVALID\<close>.
\<close>

theorem verifyNetworkHmacToken_ignores_stored_secret:
  "verifyNetworkHmacToken sample_lib 1000000 sample_db
     (sample_request [''api-key'' \<mapsto> ''syskey'', ''api-expires'' \<mapsto> ''2000'',
                      ''api-signature'' \<mapsto> '':GET/v2/user2000'']) = Inr ()
   \<and> verifyNetworkHmacToken sample_lib 1000000 sample_db
       (sample_request [''api-key'' \<mapsto> ''syskey'', ''api-expires'' \<mapsto> ''2000'',
                        ''api-signature'' \<mapsto> ''syssecret:GET/v2/user2000''])
     = Inl (Error API_SIGNATURE_INVALID)
   \<and> checkHmacSignature sample_lib (Some (api_secret (status_row sample_db)))
       (sample_request [''api-key'' \<mapsto> ''syskey'', ''api-expires'' \<mapsto> ''2000'',
                        ''api-signature'' \<mapsto> ''syssecret:GET/v2/user2000''])"
  using verifyNetworkHmacToken_empty_key_resolves verifyNetworkHmacToken_stored_secret_rejected
    stored_secret_signature_valid
  by blast

subsection \<open>One-time passwords\<close>








lemma verifyOtp_undefined: "\<not> verifyOtp L reads secret None"
  by (simp add: verifyOtp_def split: prod.splits)

subsection \<open>Creating an API key\<close>

text \<open>
  C1, as the claim states it, fails: user 1 of the sample store has \<open>otp_enabled\<close> false,
  and the call with the empty code is rejected with \<open>TOKEN_OTP_MUST_BE_ENABLED\<close>; the
  store is left as it was.
\<close>

theorem createUserKitHmacToken_without_otp_rejected:
  "createUserKitHmacToken sample_lib sample_constants 1000000 (1000001, 1000002, 1000003)
     ''key'' ''secret'' sample_db 1 (Some []) ''10.0.0.1'' ''bot''
   = (Inl (Error TOKEN_OTP_MUST_BE_ENABLED), sample_db)"
  by (simp add: createUserKitHmacToken_def checkUserOtpActive_def verifyOtpBeforeAction_def
      hasUserOtpEnabled_def getUserByKitId_def findOne_def sample_db_def)

text \<open>
  C1, amended. For every user whose \<open>otp_enabled\<close> flag is false and every code value,
  \<open>verifyOtpBeforeAction\<close> passes, and \<open>createUserKitHmacToken\<close> is rejected with
  \<open>TOKEN_OTP_MUST_BE_ENABLED\<close> by \<open>checkUserOtpActive\<close>; no token row is created.
\<close>

theorem createUserKitHmacToken_requires_otp_enabled:
  assumes "getUserByKitId db userId = Some u" and "\<not> user_otp_enabled u"
  shows "verifyOtpBeforeAction L reads db userId otpCode = Inr True
       \<and> createUserKitHmacToken L C now reads key secret db userId otpCode ip name'
         = (Inl (Error TOKEN_OTP_MUST_BE_ENABLED), db)"
  using assms
  by (simp add: createUserKitHmacToken_def checkUserOtpActive_def verifyOtpBeforeAction_def
      hasUserOtpEnabled_def getUserByKitId_def)

theorem createUserKitHmacToken_requires_otp_enabled_witness:
  "verifyOtpBeforeAction sample_lib (1000001, 1000002, 1000003) sample_db 1 None = Inr True
   \<and> createUserKitHmacToken sample_lib sample_constants 1000000 (1000001, 1000002, 1000003)
       ''key'' ''secret'' sample_db 1 None ''10.0.0.1'' ''bot''
     = (Inl (Error TOKEN_OTP_MUST_BE_ENABLED), sample_db)"
proof -
  have "getUserByKitId sample_db 1
          = Some \<lparr> user_id = 1, user_email = ''ada@example.com'', user_password = ''hash-a'',
                   user_otp_enabled = False \<rparr>"
    by (simp add: getUserByKitId_def findOne_def sample_db_def)
  from createUserKitHmacToken_requires_otp_enabled [OF this]
  show ?thesis by simp
qed

text \<open>
  For a user with \<open>otp_enabled\<close> true and a code that \<open>verifyOtp\<close> accepts for the enrolled
  secret, the call succeeds: it returns the pair and appends an active row.
\<close>

lemma createUserKitHmacToken_enrolled:
  assumes "getUserByKitId db userId = Some u" and "user_otp_enabled u"
    and "findOne_latest (\<lambda>c. otp_used c \<and> otp_user_id c = userId) (otp_codes db) = Some oc"
    and "verifyOtp L reads (otp_secret oc) otpCode"
  shows "fst (createUserKitHmacToken L C now reads key secret db userId otpCode ip name')
           = Inr \<lparr> created_id = userId, created_apiKey = key, created_secret = secret \<rparr>
       \<and> length (tokens (snd (createUserKitHmacToken L C now reads key secret db userId otpCode
                                  ip name')))
           = Suc (length (tokens db))
       \<and> token_active
            (last (tokens (snd (createUserKitHmacToken L C now reads key secret db userId otpCode
                                  ip name'))))"
  using assms
  by (simp add: createUserKitHmacToken_def checkUserOtpActive_def verifyOtpBeforeAction_def
      hasUserOtpEnabled_def verifyUserOtpCode_def getUserByKitId_def)

subsection \<open>Password reset\<close>

lemma isValidPassword_sample: "isValidPassword ''passw0rd1''"
  by (simp add: isValidPassword_def is_letter_def is_digit_def line_terminator_def)

text \<open>
  C9. When the reset code that is presented belongs to a row of the store and every row
  with this code is used, \<open>resetUserPassword\<close> with a password of valid format is
  rejected with \<open>CODE_USED\<close> and the store is returned as it was: no code row and no
  user's password is written.
\<close>

theorem resetUserPassword_used_code:
  assumes "isValidPassword newPassword"
    and "r \<in> set (reset_password_codes db)" and "reset_code r = c"
    and "\<forall>r' \<in> set (reset_password_codes db). reset_code r' = c \<longrightarrow> reset_used r'"
  shows "resetUserPassword db c newPassword = (Inl (Error CODE_USED), db)"
proof -
  obtain r' where found: "findOne (\<lambda>r. reset_code r = c) (reset_password_codes db) = Some r'"
    using assms(2,3)
    by (cases "find (\<lambda>r. reset_code r = c) (reset_password_codes db)")
      (auto simp: findOne_def find_None_iff)
  then have "r' \<in> set (reset_password_codes db)" and "reset_code r' = c"
    by (auto simp: findOne_def find_Some_iff)
  with assms(4) have "reset_used r'" by blast
  with found assms(1) show ?thesis
    by (simp add: resetUserPassword_def getResetPasswordCode_def)
qed

theorem resetUserPassword_used_code_witness:
  "resetUserPassword sample_db ''c0de'' ''passw0rd1'' = (Inl (Error CODE_USED), sample_db)"
proof -
  have "\<lparr> reset_code = ''c0de'', reset_user_id = 1, reset_used = True \<rparr>
          \<in> set (reset_password_codes sample_db)"
    and "\<forall>r' \<in> set (reset_password_codes sample_db). reset_code r' = ''c0de'' \<longrightarrow> reset_used r'"
    by (simp_all add: sample_db_def)
  from resetUserPassword_used_code [OF isValidPassword_sample this(1) _ this(2)]
  show ?thesis by simp
qed

text \<open>
  A password of invalid format is rejected before the store is read, and an unused code
  is consumed: the first call with it marks it used, so a second call is rejected.
\<close>

lemma resetUserPassword_invalid_format:
  "\<not> isValidPassword newPassword
   \<Longrightarrow> resetUserPassword db c newPassword = (Inl (Error INVALID_PASSWORD), db)"
  by (simp add: resetUserPassword_def)

end
